theory Spec2Isabelle
  imports Complex_Main
begin

section \<open>Values and device records\<close>

text \<open>
  The room view keeps its devices as an array of plain JavaScript objects that were
  produced by \<open>JSON.parse\<close> or by the HTTP client. Every attribute of a device (id, name,
  device_type, device_kind, signal_type, is_on, location, unit, last_value, position_x,
  position_y) is a JSON primitive, so a field value is one of null, a boolean, a number or
  a string. Numbers are IEEE doubles in the source. A double is a real number here; ids are
  integers, and comparisons, \<open>Math.min\<close> and \<open>Math.max\<close> are exact on doubles. Where the
  source computes (the canvas, below), every operation is followed by the rounding of its
  result to a double, which is a parameter. A JSON document has no NaN, and none is
  modelled.

  An object is a finite map from property names to values; reading a property that is not
  there gives \<open>undefined\<close>, which is \<open>None\<close>. On primitives the operator \<open>===\<close> is
  equality of values, hence HOL equality on \<open>jval option\<close>.
\<close>

datatype jval = JNull | JBool bool | JNum real | JStr string

type_synonym obj = "string \<Rightarrow> jval option"

type_synonym device = obj

text \<open>JavaScript truthiness (\<open>Boolean(v)\<close>, \<open>!v\<close>, \<open>a || b\<close>, \<open>a && b\<close>).\<close>

fun truthy :: "jval option \<Rightarrow> bool" where
  "truthy None = False"
| "truthy (Some JNull) = False"
| "truthy (Some (JBool b)) = b"
| "truthy (Some (JNum r)) = (r \<noteq> 0)"
| "truthy (Some (JStr s)) = (s \<noteq> [])"

section \<open>The device state store\<close>

text \<open>
  \<open>applyDeviceUpdate\<close> (RoomPage): \<open>devices.some\<close> looks for a record with the id of the
  update; when there is none the update is appended, otherwise every record with that id
  is replaced by the spread \<open>{...d, ...updatedDevice}\<close>, which is the map \<open>d ++ updatedDevice\<close>.
\<close>

definition applyDeviceUpdate :: "device list \<Rightarrow> device \<Rightarrow> device list" where
  "applyDeviceUpdate devices updatedDevice =
     (let exists = list_ex (\<lambda>d. d ''id'' = updatedDevice ''id'') devices in
      if \<not> exists then devices @ [updatedDevice]
      else map (\<lambda>d. if d ''id'' = updatedDevice ''id'' then d ++ updatedDevice else d) devices)"

text \<open>
  The store after a sequence of upserts, and the left-to-right shallow merge of a sequence
  of payloads over a record, as the specification words it.
\<close>

definition upsert_all :: "device list \<Rightarrow> device list \<Rightarrow> device list" where
  "upsert_all devices payloads = foldl applyDeviceUpdate devices payloads"

definition shallow_merge :: "device \<Rightarrow> device list \<Rightarrow> device" where
  "shallow_merge d payloads = foldl (++) d payloads"

section \<open>The REST command client (api.js)\<close>

text \<open>
  What axios hands to the rejected branch of the response interceptor: an error object
  with a message, the request configuration (if any) and, when the server answered, the
  response with its status code and body. A body is absent, a text that is not JSON, or a
  JSON object.
\<close>

datatype body = BodyNone | BodyText string | BodyObject obj

record config =
  baseURL :: "string option"
  url :: "string option"
  http_method :: "string option"

record response =
  status :: nat
  data :: body
  resp_config :: "config option"

record axios_error =
  message :: string
  err_response :: "response option"
  err_config :: "config option"

text \<open>
  The two objects the interceptor rejects with: \<open>{type: "network_error", message, url,
  originalError}\<close> and \<open>{type: "api_error", status, data, url, originalError}\<close>.
\<close>

datatype rejection =
    NetworkError string string axios_error
  | ApiError nat body string axios_error

fun rej_type :: "rejection \<Rightarrow> string" where
  "rej_type (NetworkError m u e) = ''network_error''"
| "rej_type (ApiError st d u e) = ''api_error''"

fun rej_status :: "rejection \<Rightarrow> nat option" where
  "rej_status (NetworkError m u e) = None"
| "rej_status (ApiError st d u e) = Some st"

fun rej_data :: "rejection \<Rightarrow> body option" where
  "rej_data (NetworkError m u e) = None"
| "rej_data (ApiError st d u e) = Some d"

fun rej_original :: "rejection \<Rightarrow> axios_error" where
  "rej_original (NetworkError m u e) = e"
| "rej_original (ApiError st d u e) = e"

text \<open>\<open>a?.b || c || ""\<close> on strings: the first operand that is a non-empty string.\<close>

fun str_or :: "string option \<Rightarrow> string \<Rightarrow> string" where
  "str_or None dflt = dflt"
| "str_or (Some s) dflt = (if s = [] then dflt else s)"

definition fullUrl :: "string \<Rightarrow> config option \<Rightarrow> string" where
  "fullUrl API_BASE_URL cfg =
     (let base = str_or (Option.bind cfg baseURL) (str_or (Some API_BASE_URL) []);
          path = str_or (Option.bind cfg url) []
      in base @ path)"

text \<open>
  The rejected branch of \<open>api.interceptors.response.use\<close>. \<open>API_BASE_URL\<close> is the
  module constant computed when the bundle loads.
\<close>

definition on_rejected :: "string \<Rightarrow> axios_error \<Rightarrow> rejection" where
  "on_rejected API_BASE_URL err =
     (case err_response err of
        None \<Rightarrow>
          NetworkError ''Unable to reach the server.'' (fullUrl API_BASE_URL (err_config err)) err
      | Some r \<Rightarrow>
          ApiError (status r) (data r) (fullUrl API_BASE_URL (resp_config r)) err)"

text \<open>
  Both branches of the interceptor on the outcome of a request: a response passes through,
  a failure is rejected with the normalized object.
\<close>

definition response_interceptor :: "string \<Rightarrow> axios_error + response \<Rightarrow> rejection + response" where
  "response_interceptor API_BASE_URL outcome =
     (case outcome of Inr r \<Rightarrow> Inr r | Inl err \<Rightarrow> Inl (on_rejected API_BASE_URL err))"

text \<open>
  The functions api.js exports, and what the caller of one gets when the request of that
  function fails. The endpoint functions return the promise of the request itself, and
  \<open>login\<close> and \<open>register\<close> await it outside any \<open>try\<close>: the caller gets the rejection
  of the interceptor. \<open>logout\<close> awaits its request inside \<open>try\<close> with an empty \<open>catch\<close>,
  then removes the token and the user from the local storage and resolves. The branches
  for a request that succeeds are not modelled.
\<close>

datatype api_function =
    Login | Register | Logout
  | GetSummary
  | GetRooms | CreateRoom | UpdateRoom
  | GetRoomDevices | CreateDevice | GetDevice | UpdateDevice | UpdateDeviceDetails
  | SendDeviceCommand
  | GetIntegrations | CreateIntegration
  | GetConnectors
  | CreateEndpoint | UpdateEndpoint | DeleteEndpoint

type_synonym storage = "string \<Rightarrow> string option"

datatype delivered = Rejected rejection | ResolvedUndefined

definition request_failed ::
  "string \<Rightarrow> api_function \<Rightarrow> axios_error \<Rightarrow> storage \<Rightarrow> delivered \<times> storage" where
  "request_failed API_BASE_URL f err localStorage =
     (let rej = on_rejected API_BASE_URL err in
      if f = Logout
      then (ResolvedUndefined, localStorage(''authToken'' := None, ''authUser'' := None))
      else (Rejected rej, localStorage))"

text \<open>
  A request as the endpoint functions of api.js build it. The paths of the device
  endpoints are template literals; an interpolated value is kept as it is.
\<close>

datatype url_part = Lit string | Interp "jval option"

record request =
  req_method :: string
  req_url :: "url_part list"
  req_params :: obj
  req_data :: "obj option"

definition getRooms :: request where
  "getRooms = \<lparr>req_method = ''get'', req_url = [Lit ''/rooms/''],
                req_params = Map.empty, req_data = None\<rparr>"

definition getRoomDevices :: "real \<Rightarrow> request" where
  "getRoomDevices roomId =
     \<lparr>req_method = ''get'', req_url = [Lit ''/devices/''],
      req_params = [''room'' \<mapsto> JNum roomId], req_data = None\<rparr>"


definition updateDevice :: "jval option \<Rightarrow> obj \<Rightarrow> request" where
  "updateDevice ident payload =
     \<lparr>req_method = ''patch'', req_url = [Lit ''/devices/'', Interp ident, Lit ''/''],
      req_params = Map.empty, req_data = Some payload\<rparr>"

definition sendDeviceCommand :: "jval option \<Rightarrow> obj \<Rightarrow> request" where
  "sendDeviceCommand ident payload =
     \<lparr>req_method = ''post'', req_url = [Lit ''/devices/'', Interp ident, Lit ''/command/''],
      req_params = Map.empty, req_data = Some payload\<rparr>"

section \<open>The room page\<close>

text \<open>
  The component state of \<open>RoomPage\<close> that the handlers below read or write. The fields of
  the room settings form and the active tab are left out, and with them \<open>syncRoomForm\<close>:
  no handler modelled here reads them. \<open>error\<close> holds what \<open>setError\<close> was last given,
  the empty string when no error is shown.
\<close>

datatype ws_status = Idle | Connecting | Online | Offline

record room_page =
  room :: "obj option"
  devices :: "device list"
  loading :: bool
  refreshing :: bool
  error :: jval
  wsStatus :: ws_status
  newDeviceName :: string
  newDeviceType :: string
  newDeviceLocation :: string

text \<open>What a handler does besides updating the state.\<close>

datatype effect =
    Http request
  | Navigate string
  | ConsoleLog string
  | ConsoleError string

text \<open>
  \<open>err?.data?.detail || err?.response?.data?.detail || fallback\<close>. The handlers receive the
  objects the interceptor rejects with; these have no \<open>response\<close> property, so the middle
  operand is \<open>undefined\<close>. Only a JSON object has a \<open>detail\<close> property.
\<close>

fun body_detail :: "body option \<Rightarrow> jval option" where
  "body_detail (Some (BodyObject m)) = m ''detail''"
| "body_detail _ = None"

definition error_detail :: "rejection \<Rightarrow> string \<Rightarrow> jval" where
  "error_detail err fallback =
     (let detail = body_detail (rej_data err) in
      case detail of
        Some v \<Rightarrow> if truthy detail then v else JStr fallback
      | None \<Rightarrow> JStr fallback)"

subsection \<open>Loading\<close>

text \<open>
  \<open>load\<close> up to its \<open>await\<close>, and its continuation when both requests succeeded or when
  one failed. \<open>roomsRes.data || []\<close> and \<open>devicesRes.data || []\<close>: a missing body is
  \<open>None\<close>. The \<open>finally\<close> block runs on every path.
\<close>

definition load_begin :: "real \<Rightarrow> bool \<Rightarrow> room_page \<Rightarrow> room_page \<times> effect list" where
  "load_begin numericRoomId isRefresh s =
     (let s1 = s\<lparr>error := JStr []\<rparr>;
          s2 = (if isRefresh then s1\<lparr>refreshing := True\<rparr> else s1\<lparr>loading := True\<rparr>)
      in (s2, [Http getRooms, Http (getRoomDevices numericRoomId)]))"

definition load_finally :: "room_page \<Rightarrow> room_page" where
  "load_finally s = s\<lparr>loading := False, refreshing := False\<rparr>"

definition load_resolved ::
  "real \<Rightarrow> obj list option \<Rightarrow> device list option \<Rightarrow> room_page \<Rightarrow> room_page \<times> effect list" where
  "load_resolved numericRoomId roomsRes_data devicesRes_data s =
     (let rooms = (case roomsRes_data of None \<Rightarrow> [] | Some rs \<Rightarrow> rs);
          devicesData = (case devicesRes_data of None \<Rightarrow> [] | Some ds \<Rightarrow> ds);
          foundRoom = find (\<lambda>r. r ''id'' = Some (JNum numericRoomId)) rooms;
          s1 = (if foundRoom = None then s\<lparr>error := JStr ''Room not found.''\<rparr> else s);
          s2 = s1\<lparr>room := foundRoom\<rparr>;
          s3 = s2\<lparr>devices := devicesData\<rparr>
      in (load_finally s3, []))"

definition load_rejected :: "rejection \<Rightarrow> room_page \<Rightarrow> room_page \<times> effect list" where
  "load_rejected err s =
     (let status = rej_status err in
      if status = Some 401 \<or> status = Some 403
      then (load_finally s, [ConsoleError ''Room load error:'', Navigate ''/login''])
      else (load_finally (s\<lparr>error := error_detail err ''Failed to load room data.''\<rparr>),
            [ConsoleError ''Room load error:'']))"

subsection \<open>The live channel\<close>

text \<open>
  A message after \<open>JSON.parse\<close>. The parser belongs to the JavaScript runtime and is a
  parameter of the handler: it throws a \<open>SyntaxError\<close> or returns the document. Of a
  document the handler reads the properties \<open>type\<close>, \<open>device\<close> and \<open>devices\<close>. Following
  the wire format, \<open>device\<close> is a device object when it is there, and \<open>devices\<close>, when it
  is an array, is an array of device objects. Reading a property of \<open>null\<close> throws a
  \<open>TypeError\<close>; a number, string, boolean or array has none of the three properties.
\<close>

datatype exn = SyntaxError | TypeError

record message =
  msg_type :: "jval option"
  msg_device :: "device option"
  msg_devices :: "device list option"

datatype parsed = ParsedNull | ParsedOther | ParsedObject message

fun data_type :: "parsed \<Rightarrow> exn + jval option" where
  "data_type ParsedNull = Inl TypeError"
| "data_type ParsedOther = Inr None"
| "data_type (ParsedObject m) = Inr (msg_type m)"

fun data_device :: "parsed \<Rightarrow> exn + device option" where
  "data_device ParsedNull = Inl TypeError"
| "data_device ParsedOther = Inr None"
| "data_device (ParsedObject m) = Inr (msg_device m)"

fun data_devices :: "parsed \<Rightarrow> exn + device list option" where
  "data_devices ParsedNull = Inl TypeError"
| "data_devices ParsedOther = Inr None"
| "data_devices (ParsedObject m) = Inr (msg_devices m)"

text \<open>
  The \<open>try\<close> block of \<open>socket.onmessage\<close>: the two \<open>if\<close> statements in sequence, each
  queueing an update of the device list. \<open>&&\<close> evaluates its right operand only when the
  left one holds.
\<close>

definition onmessage_try ::
  "(string \<Rightarrow> exn + parsed) \<Rightarrow> string \<Rightarrow> device list \<Rightarrow> exn + device list" where
  "onmessage_try JSON_parse event_data prev =
     (case JSON_parse event_data of
        Inl e \<Rightarrow> Inl e
      | Inr dat \<Rightarrow>
         (case data_type dat of
            Inl e \<Rightarrow> Inl e
          | Inr ty \<Rightarrow>
             (let devs1 =
                   (if ty = Some (JStr ''device_update'')
                    then (case data_device dat of
                            Inr (Some device) \<Rightarrow> applyDeviceUpdate prev device
                          | _ \<Rightarrow> prev)
                    else prev);
                  devs2 =
                   (if ty = Some (JStr ''devices_snapshot'')
                    then (case data_devices dat of
                            Inr (Some snapshot) \<Rightarrow> snapshot
                          | _ \<Rightarrow> devs1)
                    else devs1)
              in Inr devs2)))"

text \<open>
  The handler: it logs the raw message, runs the block, and in the \<open>catch\<close> branch logs
  the failure and leaves the state alone. Its result is a sum so that a thrown exception
  would show as \<open>Inl\<close>.
\<close>

definition onmessage ::
  "(string \<Rightarrow> exn + parsed) \<Rightarrow> string \<Rightarrow> room_page \<Rightarrow> exn + room_page \<times> effect list" where
  "onmessage JSON_parse event_data s =
     (case onmessage_try JSON_parse event_data (devices s) of
        Inr devs \<Rightarrow> Inr (s\<lparr>devices := devs\<rparr>, [ConsoleLog ''[ws] message''])
      | Inl e \<Rightarrow> Inr (s, [ConsoleLog ''[ws] message'', ConsoleError ''[ws] failed to parse message'']))"

text \<open>The other handlers of the socket record the state of the connection.\<close>

definition onopen :: "room_page \<Rightarrow> room_page \<times> effect list" where
  "onopen s = (s\<lparr>wsStatus := Online\<rparr>, [ConsoleLog ''[ws] connected''])"

definition onerror :: "room_page \<Rightarrow> room_page \<times> effect list" where
  "onerror s = (s\<lparr>wsStatus := Offline\<rparr>, [ConsoleError ''[ws] error''])"

definition onclose :: "room_page \<Rightarrow> room_page \<times> effect list" where
  "onclose s = (s\<lparr>wsStatus := Offline\<rparr>, [ConsoleLog ''[ws] closed''])"

subsection \<open>Toggling a device\<close>

text \<open>
  \<open>handleToggleDevice\<close> in three parts: up to \<open>await sendDeviceCommand\<close>, the \<open>catch\<close>
  block, and the continuation after the command succeeded. Between the first part and one
  of the others, other handlers may run. The updaters given to \<open>setDevices\<close> are applied
  to the device list that is current when they run.
\<close>

definition isDigital :: "device \<Rightarrow> bool" where
  "isDigital device \<longleftrightarrow>
     device ''signal_type'' = Some (JStr ''digital'') \<or>
     device ''device_type'' = Some (JStr ''switch'') \<or>
     device ''device_type'' = Some (JStr ''light'')"

definition toggle_begin :: "device \<Rightarrow> room_page \<Rightarrow> room_page \<times> effect list" where
  "toggle_begin device s =
     (let s1 = s\<lparr>error := JStr []\<rparr> in
      if \<not> isDigital device then (s1, [])
      else
        let isOn = truthy (device ''is_on'');
            nextState = \<not> isOn;
            s2 = s1\<lparr>devices :=
                   map (\<lambda>d. if d ''id'' = device ''id'' then d(''is_on'' \<mapsto> JBool nextState) else d)
                       (devices s1)\<rparr>
        in (s2, [Http (sendDeviceCommand (device ''id'')
                         [''state'' \<mapsto> JStr (if nextState then ''on'' else ''off'')])]))"

definition toggle_rejected :: "device \<Rightarrow> rejection \<Rightarrow> room_page \<Rightarrow> room_page \<times> effect list" where
  "toggle_rejected device err s =
     (let s1 = s\<lparr>error := error_detail err ''Could not toggle device.''\<rparr>;
          s2 = s1\<lparr>devices :=
                 map (\<lambda>d. if d ''id'' = device ''id''
                           then d(''is_on'' \<mapsto> JBool (\<not> truthy (d ''is_on''))) else d)
                     (devices s1)\<rparr>
      in (s2, [ConsoleError ''Toggle device error:'']))"

definition toggle_resolved :: "real \<Rightarrow> room_page \<Rightarrow> room_page \<times> effect list" where
  "toggle_resolved numericRoomId s = load_begin numericRoomId True s"

subsection \<open>Creating a device\<close>





subsection \<open>Positions\<close>

text \<open>\<open>handleDevicePositionPreview\<close> writes the position into the store; \<open>handleDevicePositionCommit\<close>
  sends it and leaves the store alone, also when the request fails.\<close>

definition handleDevicePositionPreview ::
  "jval option \<Rightarrow> real \<Rightarrow> real \<Rightarrow> room_page \<Rightarrow> room_page" where
  "handleDevicePositionPreview deviceId xPercent yPercent s =
     s\<lparr>devices :=
         map (\<lambda>d. if d ''id'' = deviceId
                   then d(''position_x'' \<mapsto> JNum xPercent, ''position_y'' \<mapsto> JNum yPercent) else d)
             (devices s)\<rparr>"

definition handleDevicePositionCommit ::
  "jval option \<Rightarrow> real \<Rightarrow> real \<Rightarrow> room_page \<Rightarrow> room_page \<times> effect list" where
  "handleDevicePositionCommit deviceId xPercent yPercent s =
     (s, [Http (updateDevice deviceId
                  [''position_x'' \<mapsto> JNum xPercent, ''position_y'' \<mapsto> JNum yPercent])])"

section \<open>The room canvas\<close>

text \<open>
  \<open>RoomCanvas\<close> keeps the id of the device being dragged in component state (\<open>null\<close> when
  idle) and the start of the drag and the moved flag in refs. \<open>containerRef.current\<close> is
  the canvas element, of which only the bounding rectangle is read; it is \<open>None\<close> while the
  element is not mounted. The three callbacks are optional props; the record says which
  were given.

  The arithmetic of the canvas is that of doubles: each subtraction, division,
  multiplication and addition yields the double nearest to the exact result. The rounding
  function \<open>fl\<close> is a parameter of the handlers, and nothing is assumed about it. Pointer
  coordinates and rectangles are finite and far from overflow.
\<close>

record pointer_event =
  clientX :: real
  clientY :: real

record rect =
  rect_left :: real
  rect_top :: real
  rect_width :: real
  rect_height :: real

record canvas_props =
  onPositionPreview :: bool
  onPositionCommit :: bool
  onOpenDeviceSettings :: bool

record canvas =
  containerRef :: "rect option"
  draggingId :: "jval option"
  dragStartRef :: "real \<times> real"
  didMoveRef :: bool

datatype canvas_effect =
    PositionPreview "jval option" real real
  | PositionCommit "jval option" real real
  | OpenDeviceSettings "jval option"

definition getPercentFromPointer ::
  "(real \<Rightarrow> real) \<Rightarrow> rect option \<Rightarrow> pointer_event \<Rightarrow> real \<times> real" where
  "getPercentFromPointer fl container event =
     (case container of
        None \<Rightarrow> (0, 0)
      | Some r \<Rightarrow>
          let x = fl (fl (fl (clientX event - rect_left r) / rect_width r) * 100);
              y = fl (fl (fl (clientY event - rect_top r) / rect_height r) * 100)
          in (min 100 (max 0 x), min 100 (max 0 y)))"

text \<open>\<open>dx * dx + dy * dy\<close> of \<open>handlePointerMove\<close>, with the start of the drag.\<close>

definition distanceSq :: "(real \<Rightarrow> real) \<Rightarrow> real \<times> real \<Rightarrow> pointer_event \<Rightarrow> real" where
  "distanceSq fl start e =
     (let dx = fl (clientX e - fst start);
          dy = fl (clientY e - snd start)
      in fl (fl (dx * dx) + fl (dy * dy)))"

definition handlePointerDown ::
  "(real \<Rightarrow> real) \<Rightarrow> canvas_props \<Rightarrow> pointer_event \<Rightarrow> jval option \<Rightarrow> canvas \<Rightarrow> canvas \<times> canvas_effect list" where
  "handlePointerDown fl props e deviceId c =
     (let c1 = c\<lparr>draggingId := deviceId, dragStartRef := (clientX e, clientY e),
                 didMoveRef := False\<rparr>;
          (x, y) = getPercentFromPointer fl (containerRef c) e
      in (c1, if onPositionPreview props then [PositionPreview deviceId x y] else []))"

definition handlePointerMove ::
  "(real \<Rightarrow> real) \<Rightarrow> canvas_props \<Rightarrow> pointer_event \<Rightarrow> canvas \<Rightarrow> canvas \<times> canvas_effect list" where
  "handlePointerMove fl props e c =
     (if \<not> truthy (draggingId c) then (c, [])
      else
        let c1 = (if distanceSq fl (dragStartRef c) e > 9 then c\<lparr>didMoveRef := True\<rparr> else c);
            (x, y) = getPercentFromPointer fl (containerRef c) e
        in (c1, if onPositionPreview props then [PositionPreview (draggingId c) x y] else []))"

definition finishDrag ::
  "(real \<Rightarrow> real) \<Rightarrow> canvas_props \<Rightarrow> pointer_event \<Rightarrow> canvas \<Rightarrow> canvas \<times> canvas_effect list" where
  "finishDrag fl props e c =
     (if \<not> truthy (draggingId c) then (c, [])
      else
        let finalId = draggingId c;
            c1 = c\<lparr>draggingId := Some JNull\<rparr>;
            (x, y) = getPercentFromPointer fl (containerRef c) e
        in (c1,
            (if onPositionPreview props then [PositionPreview finalId x y] else []) @
            (if onPositionCommit props then [PositionCommit finalId x y] else []) @
            (if \<not> didMoveRef c \<and> onOpenDeviceSettings props
             then [OpenDeviceSettings finalId] else [])))"

text \<open>
  The pointer events the canvas element and the device dots listen to, and a run of the
  canvas over a sequence of them. \<open>onPointerUp\<close> and \<open>onPointerLeave\<close> are both bound to
  \<open>finishDrag\<close>.
\<close>

datatype pointer =
    PointerDown pointer_event "jval option"
  | PointerMove pointer_event
  | PointerUp pointer_event
  | PointerLeave pointer_event

fun canvas_step ::
  "(real \<Rightarrow> real) \<Rightarrow> canvas_props \<Rightarrow> canvas \<Rightarrow> pointer \<Rightarrow> canvas \<times> canvas_effect list" where
  "canvas_step fl props c (PointerDown e deviceId) = handlePointerDown fl props e deviceId c"
| "canvas_step fl props c (PointerMove e) = handlePointerMove fl props e c"
| "canvas_step fl props c (PointerUp e) = finishDrag fl props e c"
| "canvas_step fl props c (PointerLeave e) = finishDrag fl props e c"

fun canvas_run ::
  "(real \<Rightarrow> real) \<Rightarrow> canvas_props \<Rightarrow> canvas \<Rightarrow> pointer list \<Rightarrow> canvas \<times> canvas_effect list" where
  "canvas_run fl props c [] = (c, [])"
| "canvas_run fl props c (p # ps) =
     (let (c1, es1) = canvas_step fl props c p;
          (c2, es2) = canvas_run fl props c1 ps
      in (c2, es1 @ es2))"


section \<open>Notions used by the properties\<close>

text \<open>The state of a freshly mounted room page and of an idle canvas (the \<open>useState\<close> and
  \<open>useRef\<close> initial values).\<close>

definition initial_page :: room_page where
  "initial_page =
     \<lparr>room = None, devices = [], loading = True, refreshing = False, error = JStr [],
      wsStatus = Idle, newDeviceName = [], newDeviceType = ''light'', newDeviceLocation = []\<rparr>"

definition initial_canvas :: "rect option \<Rightarrow> canvas" where
  "initial_canvas container =
     \<lparr>containerRef = container, draggingId = Some JNull, dragStartRef = (0, 0),
      didMoveRef = False\<rparr>"

text \<open>The ids of the records in the store, in order; no two records share an id.\<close>

definition device_ids :: "device list \<Rightarrow> jval option list" where
  "device_ids devs = map (\<lambda>d. d ''id'') devs"

definition unique_ids :: "device list \<Rightarrow> bool" where
  "unique_ids devs = distinct (device_ids devs)"

text \<open>
  A coordinate is within the canvas when it is a number between 0 and 100; a record may
  also carry no coordinate (the canvas then draws it at 10).
\<close>

fun in_percent_range :: "jval option \<Rightarrow> bool" where
  "in_percent_range None = True"
| "in_percent_range (Some JNull) = True"
| "in_percent_range (Some (JNum r)) = (0 \<le> r \<and> r \<le> 100)"
| "in_percent_range (Some (JBool b)) = False"
| "in_percent_range (Some (JStr t)) = False"

definition position_ok :: "device \<Rightarrow> bool" where
  "position_ok d = (in_percent_range (d ''position_x'') \<and> in_percent_range (d ''position_y''))"

definition positions_ok :: "device list \<Rightarrow> bool" where
  "positions_ok devs = list_all position_ok devs"

text \<open>The coordinates of the records in the store, in order.\<close>

definition device_positions :: "device list \<Rightarrow> (jval option \<times> jval option) list" where
  "device_positions devs = map (\<lambda>d. (d ''position_x'', d ''position_y'')) devs"

fun effect_in_range :: "canvas_effect \<Rightarrow> bool" where
  "effect_in_range (PositionPreview i x y) = (0 \<le> x \<and> x \<le> 100 \<and> 0 \<le> y \<and> y \<le> 100)"
| "effect_in_range (PositionCommit i x y) = (0 \<le> x \<and> x \<le> 100 \<and> 0 \<le> y \<and> y \<le> 100)"
| "effect_in_range (OpenDeviceSettings i) = True"






text \<open>Messages arriving on the live channel one after the other.\<close>

fun deliver :: "(string \<Rightarrow> exn + parsed) \<Rightarrow> string list \<Rightarrow> room_page \<Rightarrow> room_page" where
  "deliver JSON_parse [] s = s"
| "deliver JSON_parse (m # ms) s =
     (case onmessage JSON_parse m s of
        Inr (s', es) \<Rightarrow> deliver JSON_parse ms s'
      | Inl e \<Rightarrow> s)"

text \<open>
  A toggle whose command is rejected while the messages \<open>in_flight\<close> arrive between the
  request and the rejection.
\<close>

definition toggle_rejected_run ::
  "(string \<Rightarrow> exn + parsed) \<Rightarrow> device \<Rightarrow> string list \<Rightarrow> rejection \<Rightarrow> room_page \<Rightarrow> room_page" where
  "toggle_rejected_run JSON_parse device in_flight err s =
     fst (toggle_rejected device err (deliver JSON_parse in_flight (fst (toggle_begin device s))))"

section \<open>Upserts\<close>

lemma shallow_merge_Nil: "shallow_merge d [] = d"
  by (simp add: shallow_merge_def)

lemma shallow_merge_Cons: "shallow_merge d (p # ps) = shallow_merge (d ++ p) ps"
  by (simp add: shallow_merge_def)

lemma upsert_all_Nil: "upsert_all store [] = store"
  by (simp add: upsert_all_def)

lemma upsert_all_Cons: "upsert_all store (p # ps) = upsert_all (applyDeviceUpdate store p) ps"
  by (simp add: upsert_all_def)

lemma map_add_id: "p ''id'' = i \<Longrightarrow> d ''id'' = i \<Longrightarrow> (d ++ p) ''id'' = i"
  by (auto simp: map_add_def split: option.splits)

lemma list_ex_map_if:
  "list_ex P xs \<Longrightarrow> (\<And>x. P x \<Longrightarrow> P (f x)) \<Longrightarrow> list_ex P (map (\<lambda>x. if P x then f x else x) xs)"
  by (induction xs) auto

text \<open>
  Claim C2. For every store and every sequence of upserts whose payloads carry the same id,
  the store afterwards is as follows. When a record with that id was in the store, every
  such record is the left-to-right shallow merge of all payloads over it and the other
  records are as before. When there was none, the store is the old one followed by one new
  record, the first payload with the later ones merged into it. The number of upserts
  does not matter.
\<close>

theorem upsert_sequence_shallow_merge:
  assumes "\<forall>p \<in> set ps. p ''id'' = i"
  shows "upsert_all store ps =
     (if list_ex (\<lambda>d. d ''id'' = i) store
      then map (\<lambda>d. if d ''id'' = i then shallow_merge d ps else d) store
      else (case ps of [] \<Rightarrow> store | p # ps' \<Rightarrow> store @ [shallow_merge p ps']))"
  using assms
proof (induction ps arbitrary: store)
  case Nil
  then show ?case
    by (simp add: upsert_all_Nil shallow_merge_Nil cong: if_cong)
next
  case (Cons p ps)
  have pid: "p ''id'' = i" and rest: "\<forall>q \<in> set ps. q ''id'' = i"
    using Cons.prems by simp_all
  show ?case
  proof (cases "list_ex (\<lambda>d. d ''id'' = i) store")
    case True
    let ?store' = "map (\<lambda>d. if d ''id'' = i then d ++ p else d) store"
    have step: "applyDeviceUpdate store p = ?store'"
      using True pid by (simp add: applyDeviceUpdate_def)
    have ex': "list_ex (\<lambda>d. d ''id'' = i) ?store'"
      using True pid by (intro list_ex_map_if) (simp_all add: map_add_id)
    have "upsert_all ?store' ps = map (\<lambda>d. if d ''id'' = i then shallow_merge d ps else d) ?store'"
      using Cons.IH [OF rest, of ?store'] ex' by simp
    also have "\<dots> = map (\<lambda>d. if d ''id'' = i then shallow_merge (d ++ p) ps else d) store"
      using pid by (simp add: map_add_id)
    finally show ?thesis
      using True step by (simp add: upsert_all_Cons shallow_merge_Cons)
  next
    case False
    have step: "applyDeviceUpdate store p = store @ [p]"
      using False pid by (simp add: applyDeviceUpdate_def)
    have keep: "map (\<lambda>d. if d ''id'' = i then shallow_merge d ps else d) store = store"
      using False by (simp add: list_ex_iff map_idI)
    have "upsert_all (store @ [p]) ps =
        map (\<lambda>d. if d ''id'' = i then shallow_merge d ps else d) (store @ [p])"
      using Cons.IH [OF rest, of "store @ [p]"] pid by simp
    then show ?thesis
      using False step keep pid by (simp add: upsert_all_Cons)
  qed
qed

theorem upsert_sequence_shallow_merge_witness:
  "map (\<lambda>d. (d ''id'', d ''is_on'', d ''name''))
     (upsert_all
        [[''id'' \<mapsto> JNum 7, ''is_on'' \<mapsto> JBool False], [''id'' \<mapsto> JNum 8]]
        [[''id'' \<mapsto> JNum 7, ''is_on'' \<mapsto> JBool True],
         [''id'' \<mapsto> JNum 7, ''name'' \<mapsto> JStr ''Lamp'']])
   = [(Some (JNum 7), Some (JBool True), Some (JStr ''Lamp'')), (Some (JNum 8), None, None)]"
  using upsert_sequence_shallow_merge
    [of "[[''id'' \<mapsto> JNum 7, ''is_on'' \<mapsto> JBool True],
          [''id'' \<mapsto> JNum 7, ''name'' \<mapsto> JStr ''Lamp'']]"
        "Some (JNum 7)"
        "[[''id'' \<mapsto> JNum 7, ''is_on'' \<mapsto> JBool False], [''id'' \<mapsto> JNum 8]]"]
  by (simp add: shallow_merge_def)

section \<open>Positions computed by the drag handler\<close>

lemma getPercentFromPointer_bounds:
  "getPercentFromPointer fl container e = (x, y) \<Longrightarrow> 0 \<le> x \<and> x \<le> 100 \<and> 0 \<le> y \<and> y \<le> 100"
  by (auto simp: getPercentFromPointer_def Let_def split: option.splits)

lemma canvas_step_in_range:
  "canvas_step fl props c p = (c', es) \<Longrightarrow> list_all effect_in_range es"
  by (cases p)
     (auto simp: handlePointerDown_def handlePointerMove_def finishDrag_def Let_def
           split: if_splits prod.splits dest: getPercentFromPointer_bounds)

lemma canvas_run_in_range:
  "list_all effect_in_range (snd (canvas_run fl props c ps))"
proof (induction ps arbitrary: c)
  case Nil
  show ?case by simp
next
  case (Cons p ps)
  obtain c1 es1 where step: "canvas_step fl props c p = (c1, es1)"
    by (cases "canvas_step fl props c p")
  obtain c2 es2 where run: "canvas_run fl props c1 ps = (c2, es2)"
    by (cases "canvas_run fl props c1 ps")
  have "list_all effect_in_range es1"
    using step by (rule canvas_step_in_range)
  moreover have "list_all effect_in_range es2"
    using Cons.IH [of c1] run by simp
  ultimately show ?case
    using step run by simp
qed

text \<open>
  Claim C6. For a canvas whose bounding box has positive width and height and for any
  pointer position, inside the box or not, the percentages computed by
  \<open>getPercentFromPointer\<close> lie between 0 and 100; hence so do the coordinates of every
  position preview and position commit that the canvas emits over any sequence of pointer
  events. The box has positive size because the source divides by its width and height.
  \<open>Math.min\<close> and \<open>Math.max\<close> are exact, so the bounds hold whatever the rounding of the
  arithmetic is.
\<close>

theorem drag_positions_within_canvas:
  assumes "containerRef c = Some r" and "0 < rect_width r" and "0 < rect_height r"
  shows "0 \<le> fst (getPercentFromPointer fl (containerRef c) e) \<and>
         fst (getPercentFromPointer fl (containerRef c) e) \<le> 100 \<and>
         0 \<le> snd (getPercentFromPointer fl (containerRef c) e) \<and>
         snd (getPercentFromPointer fl (containerRef c) e) \<le> 100 \<and>
         list_all effect_in_range (snd (canvas_run fl props c events))"
  using getPercentFromPointer_bounds [of fl "containerRef c" e] canvas_run_in_range [of fl props c events]
  by (cases "getPercentFromPointer fl (containerRef c) e") simp

theorem drag_positions_within_canvas_witness:
  "getPercentFromPointer (\<lambda>x. x)
      (Some \<lparr>rect_left = 20, rect_top = 10, rect_width = 200, rect_height = 100\<rparr>)
      \<lparr>clientX = 500, clientY = - 30\<rparr> = (100, 0) \<and>
   list_all effect_in_range
     (snd (canvas_run (\<lambda>x. x)
        \<lparr>onPositionPreview = True, onPositionCommit = True, onOpenDeviceSettings = True\<rparr>
        (initial_canvas (Some \<lparr>rect_left = 20, rect_top = 10, rect_width = 200, rect_height = 100\<rparr>))
        [PointerDown \<lparr>clientX = 70, clientY = 35\<rparr> (Some (JNum 1)),
         PointerMove \<lparr>clientX = 500, clientY = - 30\<rparr>,
         PointerUp \<lparr>clientX = 500, clientY = - 30\<rparr>]))"
  using drag_positions_within_canvas
    [where c = "initial_canvas (Some \<lparr>rect_left = 20, rect_top = 10, rect_width = 200, rect_height = 100\<rparr>)"
       and r = "\<lparr>rect_left = 20, rect_top = 10, rect_width = 200, rect_height = 100\<rparr>"
       and fl = "\<lambda>x. x"
       and e = "\<lparr>clientX = 500, clientY = - 30\<rparr>"
       and props = "\<lparr>onPositionPreview = True, onPositionCommit = True, onOpenDeviceSettings = True\<rparr>"
       and events = "[PointerDown \<lparr>clientX = 70, clientY = 35\<rparr> (Some (JNum 1)),
         PointerMove \<lparr>clientX = 500, clientY = - 30\<rparr>,
         PointerUp \<lparr>clientX = 500, clientY = - 30\<rparr>]"]
  by (simp add: initial_canvas_def getPercentFromPointer_def)

section \<open>Failed requests\<close>

text \<open>
  The rejected branch of the interceptor: the object it rejects with keeps the original
  error and has type \<open>network_error\<close> when the error carries no response, type
  \<open>api_error\<close> with the status code and the body of the response when it carries one.
\<close>

lemma on_rejected_normalized:
  "rej_original (on_rejected API_BASE_URL err) = err \<and>
   (rej_type (on_rejected API_BASE_URL err), rej_status (on_rejected API_BASE_URL err),
    rej_data (on_rejected API_BASE_URL err)) =
     (case err_response err of
        None \<Rightarrow> (''network_error'', None, None)
      | Some r \<Rightarrow> (''api_error'', Some (status r), Some (data r)))"
  by (simp add: on_rejected_def split: option.splits)

text \<open>
  \<open>logout\<close> ignores the failure of its request: when \<open>POST /auth/logout/\<close> is answered
  with status 500, the caller of \<open>logout\<close> gets a promise that resolves, not a rejection.
\<close>

theorem logout_failure_counterexample:
  "fst (request_failed ''http://localhost:8002/api'' Logout
          \<lparr>message = ''Request failed with status code 500'',
           err_response = Some \<lparr>status = 500, data = BodyText ''Server Error'',
                                 resp_config = Some \<lparr>baseURL = None, url = Some ''/auth/logout/'',
                                                      http_method = Some ''post''\<rparr>\<rparr>,
           err_config = None\<rparr>
          [''authToken'' \<mapsto> ''abc''])
   = ResolvedUndefined"
  by (simp add: request_failed_def)

text \<open>
  Claim C9, as the code has it. Every failure of a request passes the interceptor, which
  rejects with one of the two normalized objects. For every exported function of api.js
  other than \<open>logout\<close>, the caller gets this rejection: type \<open>network_error\<close> when no
  response was received, type \<open>api_error\<close> with the status code and the body of the
  response otherwise; the local storage is as before. \<open>logout\<close> swallows the rejection:
  it resolves, and removes the token and the user from the local storage.
\<close>

theorem rest_failure_delivered:
  "response_interceptor API_BASE_URL (Inl err) = Inl (on_rejected API_BASE_URL err) \<and>
   (f \<noteq> Logout \<longrightarrow>
      (\<exists>rej. request_failed API_BASE_URL f err localStorage = (Rejected rej, localStorage) \<and>
             rej_original rej = err \<and>
             (rej_type rej, rej_status rej, rej_data rej) =
               (case err_response err of
                  None \<Rightarrow> (''network_error'', None, None)
                | Some r \<Rightarrow> (''api_error'', Some (status r), Some (data r))))) \<and>
   request_failed API_BASE_URL Logout err localStorage =
     (ResolvedUndefined, localStorage(''authToken'' := None, ''authUser'' := None))"
proof -
  have "request_failed API_BASE_URL f err localStorage =
      (Rejected (on_rejected API_BASE_URL err), localStorage)" if "f \<noteq> Logout"
    using that by (simp add: request_failed_def)
  then show ?thesis
    using on_rejected_normalized [of API_BASE_URL err]
    by (simp add: response_interceptor_def request_failed_def)
qed

theorem rest_failure_delivered_witness:
  "request_failed ''http://localhost:8002/api'' SendDeviceCommand
     \<lparr>message = ''Request failed with status code 404'',
      err_response = Some \<lparr>status = 404, data = BodyObject [''detail'' \<mapsto> JStr ''Not found.''],
                            resp_config = Some \<lparr>baseURL = None, url = Some ''/devices/9/command/'',
                                                 http_method = Some ''post''\<rparr>\<rparr>,
      err_config = None\<rparr>
     Map.empty
   = (Rejected (ApiError 404 (BodyObject [''detail'' \<mapsto> JStr ''Not found.''])
        ''http://localhost:8002/api/devices/9/command/''
        \<lparr>message = ''Request failed with status code 404'',
         err_response = Some \<lparr>status = 404, data = BodyObject [''detail'' \<mapsto> JStr ''Not found.''],
                               resp_config = Some \<lparr>baseURL = None, url = Some ''/devices/9/command/'',
                                                    http_method = Some ''post''\<rparr>\<rparr>,
         err_config = None\<rparr>),
      Map.empty)"
  using rest_failure_delivered
    [where API_BASE_URL = "''http://localhost:8002/api''" and f = SendDeviceCommand
       and localStorage = Map.empty
       and err = "\<lparr>message = ''Request failed with status code 404'',
           err_response = Some \<lparr>status = 404, data = BodyObject [''detail'' \<mapsto> JStr ''Not found.''],
                                 resp_config = Some \<lparr>baseURL = None, url = Some ''/devices/9/command/'',
                                                      http_method = Some ''post''\<rparr>\<rparr>,
           err_config = None\<rparr>"]
  by (simp add: request_failed_def on_rejected_def fullUrl_def)

section \<open>Messages of the live channel\<close>

text \<open>
  Claim C3. For every message string the handler returns without throwing. When the
  string is not valid JSON the message is dropped: the failure is logged (with
  \<open>console.error\<close>) and the state is as before. When the document has type \<open>device_update\<close> and a device object, the store
  is upserted with that device. When it has type \<open>devices_snapshot\<close> and an array of
  devices, the store becomes that array, so every id that is not in the snapshot is gone.
  A document of any other type leaves the state as it is.
\<close>

theorem onmessage_dispatch:
  "(\<exists>s' es. onmessage JSON_parse event_data s = Inr (s', es)) \<and>
   (\<forall>e. JSON_parse event_data = Inl e \<longrightarrow>
        onmessage JSON_parse event_data s =
          Inr (s, [ConsoleLog ''[ws] message'', ConsoleError ''[ws] failed to parse message''])) \<and>
   (\<forall>m device. JSON_parse event_data = Inr (ParsedObject m) \<and>
        msg_type m = Some (JStr ''device_update'') \<and> msg_device m = Some device \<longrightarrow>
        onmessage JSON_parse event_data s =
          Inr (s\<lparr>devices := applyDeviceUpdate (devices s) device\<rparr>, [ConsoleLog ''[ws] message''])) \<and>
   (\<forall>m snapshot. JSON_parse event_data = Inr (ParsedObject m) \<and>
        msg_type m = Some (JStr ''devices_snapshot'') \<and> msg_devices m = Some snapshot \<longrightarrow>
        onmessage JSON_parse event_data s =
          Inr (s\<lparr>devices := snapshot\<rparr>, [ConsoleLog ''[ws] message''])) \<and>
   (\<forall>dat. JSON_parse event_data = Inr dat \<and>
        data_type dat \<noteq> Inr (Some (JStr ''device_update'')) \<and>
        data_type dat \<noteq> Inr (Some (JStr ''devices_snapshot'')) \<longrightarrow>
        (\<exists>es. onmessage JSON_parse event_data s = Inr (s, es)))"
proof (intro conjI allI impI)
  show "\<exists>s' es. onmessage JSON_parse event_data s = Inr (s', es)"
    by (cases "onmessage_try JSON_parse event_data (devices s)") (simp_all add: onmessage_def)
next
  fix e
  assume "JSON_parse event_data = Inl e"
  then show "onmessage JSON_parse event_data s =
      Inr (s, [ConsoleLog ''[ws] message'', ConsoleError ''[ws] failed to parse message''])"
    by (simp add: onmessage_def onmessage_try_def)
next
  fix m device
  assume "JSON_parse event_data = Inr (ParsedObject m) \<and>
      msg_type m = Some (JStr ''device_update'') \<and> msg_device m = Some device"
  then show "onmessage JSON_parse event_data s =
      Inr (s\<lparr>devices := applyDeviceUpdate (devices s) device\<rparr>, [ConsoleLog ''[ws] message''])"
    by (simp add: onmessage_def onmessage_try_def)
next
  fix m snapshot
  assume "JSON_parse event_data = Inr (ParsedObject m) \<and>
      msg_type m = Some (JStr ''devices_snapshot'') \<and> msg_devices m = Some snapshot"
  then show "onmessage JSON_parse event_data s =
      Inr (s\<lparr>devices := snapshot\<rparr>, [ConsoleLog ''[ws] message''])"
    by (simp add: onmessage_def onmessage_try_def)
next
  fix dat
  assume a: "JSON_parse event_data = Inr dat \<and>
      data_type dat \<noteq> Inr (Some (JStr ''device_update'')) \<and>
      data_type dat \<noteq> Inr (Some (JStr ''devices_snapshot''))"
  show "\<exists>es. onmessage JSON_parse event_data s = Inr (s, es)"
  proof (cases "data_type dat")
    case (Inl e)
    then show ?thesis
      using a by (simp add: onmessage_def onmessage_try_def)
  next
    case (Inr ty)
    then show ?thesis
      using a by (simp add: onmessage_def onmessage_try_def)
  qed
qed

text \<open>
  The four cases at concrete messages, among them the scenario of the specification: an
  update for device 7, which the store does not hold yet, appends it.
\<close>

theorem onmessage_dispatch_witness:
  "onmessage (\<lambda>raw. Inl SyntaxError) ''{type:'' initial_page =
     Inr (initial_page, [ConsoleLog ''[ws] message'', ConsoleError ''[ws] failed to parse message'']) \<and>
   onmessage
     (\<lambda>raw. Inr (ParsedObject \<lparr>msg_type = Some (JStr ''device_update''),
                                msg_device = Some [''id'' \<mapsto> JNum 7, ''is_on'' \<mapsto> JBool True],
                                msg_devices = None\<rparr>))
     ''update of device 7'' initial_page =
     Inr (initial_page\<lparr>devices := [[''id'' \<mapsto> JNum 7, ''is_on'' \<mapsto> JBool True]]\<rparr>,
          [ConsoleLog ''[ws] message'']) \<and>
   onmessage
     (\<lambda>raw. Inr (ParsedObject \<lparr>msg_type = Some (JStr ''devices_snapshot''), msg_device = None,
                                msg_devices = Some [[''id'' \<mapsto> JNum 2]]\<rparr>))
     ''snapshot with device 2'' (initial_page\<lparr>devices := [[''id'' \<mapsto> JNum 1]]\<rparr>) =
     Inr (initial_page\<lparr>devices := [[''id'' \<mapsto> JNum 2]]\<rparr>, [ConsoleLog ''[ws] message'']) \<and>
   onmessage
     (\<lambda>raw. Inr (ParsedObject \<lparr>msg_type = Some (JStr ''ping''), msg_device = None,
                                msg_devices = None\<rparr>))
     ''ping'' initial_page =
     Inr (initial_page, [ConsoleLog ''[ws] message''])"
  using
    onmessage_dispatch [of "\<lambda>raw. Inl SyntaxError" "''{type:''" initial_page]
    onmessage_dispatch
      [of "\<lambda>raw. Inr (ParsedObject \<lparr>msg_type = Some (JStr ''device_update''),
                                msg_device = Some [''id'' \<mapsto> JNum 7, ''is_on'' \<mapsto> JBool True],
                                msg_devices = None\<rparr>)"
          "''update of device 7''" initial_page]
    onmessage_dispatch
      [of "\<lambda>raw. Inr (ParsedObject \<lparr>msg_type = Some (JStr ''devices_snapshot''), msg_device = None,
                                msg_devices = Some [[''id'' \<mapsto> JNum 2]]\<rparr>)"
          "''snapshot with device 2''" "initial_page\<lparr>devices := [[''id'' \<mapsto> JNum 1]]\<rparr>"]
    onmessage_dispatch
      [of "\<lambda>raw. Inr (ParsedObject \<lparr>msg_type = Some (JStr ''ping''), msg_device = None,
                                msg_devices = None\<rparr>)"
          "''ping''" initial_page]
  by (simp add: onmessage_def onmessage_try_def applyDeviceUpdate_def initial_page_def)

section \<open>Creating a device\<close>




section \<open>Uniqueness of ids in the store\<close>

lemma device_ids_patch:
  "(\<And>d. d ''id'' = i \<Longrightarrow> f d ''id'' = d ''id'') \<Longrightarrow>
   device_ids (map (\<lambda>d. if d ''id'' = i then f d else d) devs) = device_ids devs"
  by (induction devs) (simp_all add: device_ids_def)

lemma list_ex_id_iff: "list_ex (\<lambda>d. d ''id'' = i) devs \<longleftrightarrow> i \<in> set (device_ids devs)"
  by (induction devs) (auto simp: device_ids_def)

lemma device_ids_applyDeviceUpdate:
  "device_ids (applyDeviceUpdate devs u) =
     (if u ''id'' \<in> set (device_ids devs) then device_ids devs else device_ids devs @ [u ''id''])"
proof (cases "list_ex (\<lambda>d. d ''id'' = u ''id'') devs")
  case True
  then have "u ''id'' \<in> set (device_ids devs)"
    by (simp add: list_ex_id_iff)
  moreover have "device_ids (map (\<lambda>d. if d ''id'' = u ''id'' then d ++ u else d) devs) = device_ids devs"
    by (rule device_ids_patch) (simp add: map_add_id)
  ultimately show ?thesis
    using True by (simp add: applyDeviceUpdate_def)
next
  case False
  then have "u ''id'' \<notin> set (device_ids devs)"
    by (simp add: list_ex_id_iff)
  then show ?thesis
    using False by (simp add: applyDeviceUpdate_def device_ids_def)
qed

lemma device_ids_toggle_begin:
  "device_ids (devices (fst (toggle_begin device s))) = device_ids (devices s)"
  by (simp add: toggle_begin_def Let_def device_ids_patch)

lemma device_ids_toggle_rejected:
  "device_ids (devices (fst (toggle_rejected device err s))) = device_ids (devices s)"
  by (simp add: toggle_rejected_def Let_def device_ids_patch)

lemma device_ids_preview:
  "device_ids (devices (handleDevicePositionPreview i x y s)) = device_ids (devices s)"
  by (simp add: handleDevicePositionPreview_def device_ids_patch)

lemma devices_load_resolved:
  "devices (fst (load_resolved n rooms_data (Some ds) s)) = ds"
  by (simp add: load_resolved_def load_finally_def Let_def)

lemma onmessage_try_snapshot:
  "JSON_parse raw = Inr (ParsedObject m) \<Longrightarrow> msg_type m = Some (JStr ''devices_snapshot'') \<Longrightarrow>
   msg_devices m = Some snapshot \<Longrightarrow> onmessage_try JSON_parse raw prev = Inr snapshot"
  by (simp add: onmessage_try_def)

text \<open>
  Replacing the device list does not look at the ids: a fetched list in which two records
  have id 1 is stored as it is, and the store then holds two records with the same id.
\<close>

theorem duplicate_ids_counterexample:
  "\<not> unique_ids (devices (fst (load_resolved 5 None
        (Some [[''id'' \<mapsto> JNum 1, ''name'' \<mapsto> JStr ''Lamp''],
               [''id'' \<mapsto> JNum 1, ''name'' \<mapsto> JStr ''Lamp again'']])
        initial_page)))"
  by (simp add: devices_load_resolved unique_ids_def device_ids_def)

text \<open>
  Claim C4, as the code has it. An upsert and the per-id patches (the optimistic flip of a
  toggle, its revert, the position preview) keep the ids of the store distinct when they
  were distinct before. Replacing the device list, by a load or by a snapshot message,
  stores the received list as it is: afterwards the ids are distinct exactly when those of
  the received list are.
\<close>

theorem store_operations_unique_ids:
  "(unique_ids devs \<longrightarrow> unique_ids (applyDeviceUpdate devs u)) \<and>
   (unique_ids (devices s) \<longrightarrow>
      unique_ids (devices (fst (toggle_begin device s))) \<and>
      unique_ids (devices (fst (toggle_rejected device err s))) \<and>
      unique_ids (devices (handleDevicePositionPreview i x y s))) \<and>
   unique_ids (devices (fst (load_resolved n rooms_data (Some ds) s))) = unique_ids ds \<and>
   (\<forall>m snapshot. JSON_parse raw = Inr (ParsedObject m) \<and>
       msg_type m = Some (JStr ''devices_snapshot'') \<and> msg_devices m = Some snapshot \<longrightarrow>
       onmessage_try JSON_parse raw devs = Inr snapshot)"
proof -
  have "unique_ids (applyDeviceUpdate devs u)" if "unique_ids devs"
    using that by (simp add: unique_ids_def device_ids_applyDeviceUpdate)
  then show ?thesis
    by (simp add: unique_ids_def device_ids_toggle_begin device_ids_toggle_rejected
          device_ids_preview devices_load_resolved onmessage_try_snapshot)
qed

theorem store_operations_unique_ids_witness:
  "unique_ids (applyDeviceUpdate [[''id'' \<mapsto> JNum 1], [''id'' \<mapsto> JNum 2]]
                  [''id'' \<mapsto> JNum 2, ''is_on'' \<mapsto> JBool True]) \<and>
   unique_ids (devices (fst (toggle_begin [''id'' \<mapsto> JNum 1, ''device_type'' \<mapsto> JStr ''light'']
                 (initial_page\<lparr>devices := [[''id'' \<mapsto> JNum 1], [''id'' \<mapsto> JNum 2]]\<rparr>)))) \<and>
   unique_ids (devices (handleDevicePositionPreview (Some (JNum 2)) 40 60
                 (initial_page\<lparr>devices := [[''id'' \<mapsto> JNum 1], [''id'' \<mapsto> JNum 2]]\<rparr>))) \<and>
   onmessage_try
     (\<lambda>raw. Inr (ParsedObject \<lparr>msg_type = Some (JStr ''devices_snapshot''), msg_device = None,
                                msg_devices = Some [[''id'' \<mapsto> JNum 2], [''id'' \<mapsto> JNum 2]]\<rparr>))
     ''snapshot'' [[''id'' \<mapsto> JNum 1], [''id'' \<mapsto> JNum 2]] =
     Inr [[''id'' \<mapsto> JNum 2], [''id'' \<mapsto> JNum 2]]"
  using store_operations_unique_ids
    [where devs = "[[''id'' \<mapsto> JNum 1], [''id'' \<mapsto> JNum 2]]"
       and u = "[''id'' \<mapsto> JNum 2, ''is_on'' \<mapsto> JBool True]"
       and s = "initial_page\<lparr>devices := [[''id'' \<mapsto> JNum 1], [''id'' \<mapsto> JNum 2]]\<rparr>"
       and device = "[''id'' \<mapsto> JNum 1, ''device_type'' \<mapsto> JStr ''light'']"
       and err = "NetworkError ''Unable to reach the server.'' []
                    \<lparr>message = ''timeout'', err_response = None, err_config = None\<rparr>"
       and i = "Some (JNum 2)" and x = 40 and y = 60 and n = 5 and rooms_data = None
       and ds = "[[''id'' \<mapsto> JNum 1]]"
       and JSON_parse =
         "\<lambda>raw. Inr (ParsedObject \<lparr>msg_type = Some (JStr ''devices_snapshot''), msg_device = None,
                                msg_devices = Some [[''id'' \<mapsto> JNum 2], [''id'' \<mapsto> JNum 2]]\<rparr>)"
       and raw = "''snapshot''"]
  by (simp add: unique_ids_def device_ids_def)

section \<open>Positions in the store\<close>

lemma positions_ok_patch:
  "(\<And>d. position_ok d \<Longrightarrow> position_ok (f d)) \<Longrightarrow> positions_ok devs \<Longrightarrow>
   positions_ok (map (\<lambda>d. if d ''id'' = i then f d else d) devs)"
  by (induction devs) (simp_all add: positions_ok_def)

lemma position_ok_map_add: "position_ok d \<Longrightarrow> position_ok u \<Longrightarrow> position_ok (d ++ u)"
  by (auto simp: position_ok_def map_add_def split: option.splits)

lemma position_ok_is_on: "position_ok d \<Longrightarrow> position_ok (d(''is_on'' \<mapsto> v))"
  by (simp add: position_ok_def)

lemma position_ok_preview:
  "0 \<le> x \<Longrightarrow> x \<le> 100 \<Longrightarrow> 0 \<le> y \<Longrightarrow> y \<le> 100 \<Longrightarrow>
   position_ok (d(''position_x'' \<mapsto> JNum x, ''position_y'' \<mapsto> JNum y))"
  by (simp add: position_ok_def)

lemma positions_ok_applyDeviceUpdate:
  "positions_ok devs \<Longrightarrow> position_ok u \<Longrightarrow> positions_ok (applyDeviceUpdate devs u)"
proof (cases "list_ex (\<lambda>d. d ''id'' = u ''id'') devs")
  case True
  assume "positions_ok devs" and "position_ok u"
  then have "positions_ok (map (\<lambda>d. if d ''id'' = u ''id'' then d ++ u else d) devs)"
    by (intro positions_ok_patch) (simp_all add: position_ok_map_add)
  then show ?thesis
    using True by (simp add: applyDeviceUpdate_def)
next
  case False
  assume "positions_ok devs" and "position_ok u"
  then show ?thesis
    using False by (simp add: applyDeviceUpdate_def positions_ok_def)
qed

lemma positions_ok_toggle_begin:
  "positions_ok (devices s) \<Longrightarrow> positions_ok (devices (fst (toggle_begin device s)))"
  by (simp add: toggle_begin_def Let_def positions_ok_patch position_ok_is_on)

lemma positions_ok_toggle_rejected:
  "positions_ok (devices s) \<Longrightarrow> positions_ok (devices (fst (toggle_rejected device err s)))"
  by (simp add: toggle_rejected_def Let_def positions_ok_patch position_ok_is_on)

lemma positions_ok_preview:
  assumes "positions_ok (devices s)"
  shows "positions_ok (devices (handleDevicePositionPreview i
           (fst (getPercentFromPointer fl container e)) (snd (getPercentFromPointer fl container e)) s))"
proof -
  obtain x y where p: "getPercentFromPointer fl container e = (x, y)"
    by (cases "getPercentFromPointer fl container e")
  then have "0 \<le> x \<and> x \<le> 100 \<and> 0 \<le> y \<and> y \<le> 100"
    by (rule getPercentFromPointer_bounds)
  then show ?thesis
    using assms p by (simp add: handleDevicePositionPreview_def positions_ok_patch position_ok_preview)
qed

text \<open>
  An upsert keeps the coordinates of the payload: an update message for device 7 with
  \<open>position_x\<close> 250 puts a record with that coordinate into the store.
\<close>

theorem unclamped_position_counterexample:
  "\<not> positions_ok (devices (deliver
        (\<lambda>raw. Inr (ParsedObject
           \<lparr>msg_type = Some (JStr ''device_update''),
            msg_device = Some [''id'' \<mapsto> JNum 7, ''position_x'' \<mapsto> JNum 250, ''position_y'' \<mapsto> JNum 10],
            msg_devices = None\<rparr>))
        [''update of device 7''] initial_page))"
  by (simp add: onmessage_def onmessage_try_def applyDeviceUpdate_def initial_page_def
        positions_ok_def position_ok_def)

text \<open>
  The flip and the revert of a toggle write \<open>is_on\<close> and nothing else: the coordinates of
  every record are as before.
\<close>

lemma device_positions_patch:
  "(\<And>d. f d ''position_x'' = d ''position_x'' \<and> f d ''position_y'' = d ''position_y'') \<Longrightarrow>
   device_positions (map (\<lambda>d. if d ''id'' = i then f d else d) devs) = device_positions devs"
  by (induction devs) (simp_all add: device_positions_def)

lemma device_positions_toggle_begin:
  "device_positions (devices (fst (toggle_begin device s))) = device_positions (devices s)"
  by (simp add: toggle_begin_def Let_def device_positions_patch)

lemma device_positions_toggle_rejected:
  "device_positions (devices (fst (toggle_rejected device err s))) = device_positions (devices s)"
  by (simp add: toggle_rejected_def Let_def device_positions_patch)

text \<open>
  Claim C5, as the code has it. Only the drag handler clamps. A position preview with the
  coordinates of \<open>getPercentFromPointer\<close>, for a bounding box of positive size, keeps every
  coordinate of the store within 0 and 100. The flip and the revert of a toggle leave the
  coordinates of every record untouched, hence within range when they were. An upsert
  keeps them within range when those of the payload are. Replacing the device list, by a
  load or a snapshot message, stores the received list as it is: afterwards the
  coordinates are within range exactly when those of the received list are.
\<close>

theorem store_positions_in_range:
  "(positions_ok devs \<and> position_ok u \<longrightarrow> positions_ok (applyDeviceUpdate devs u)) \<and>
   device_positions (devices (fst (toggle_begin device s))) = device_positions (devices s) \<and>
   device_positions (devices (fst (toggle_rejected device err s))) = device_positions (devices s) \<and>
   (positions_ok (devices s) \<longrightarrow>
      positions_ok (devices (fst (toggle_begin device s))) \<and>
      positions_ok (devices (fst (toggle_rejected device err s)))) \<and>
   (positions_ok (devices s) \<and> containerRef c = Some r \<and> 0 < rect_width r \<and> 0 < rect_height r \<longrightarrow>
      positions_ok (devices (handleDevicePositionPreview i
         (fst (getPercentFromPointer fl (containerRef c) e))
         (snd (getPercentFromPointer fl (containerRef c) e)) s))) \<and>
   devices (fst (load_resolved n rooms_data (Some ds) s)) = ds \<and>
   positions_ok (devices (fst (load_resolved n rooms_data (Some ds) s))) = positions_ok ds \<and>
   (\<forall>m snapshot. JSON_parse raw = Inr (ParsedObject m) \<and>
       msg_type m = Some (JStr ''devices_snapshot'') \<and> msg_devices m = Some snapshot \<longrightarrow>
       onmessage_try JSON_parse raw devs = Inr snapshot)"
  by (simp add: positions_ok_applyDeviceUpdate positions_ok_toggle_begin
        positions_ok_toggle_rejected positions_ok_preview devices_load_resolved
        onmessage_try_snapshot device_positions_toggle_begin device_positions_toggle_rejected)

theorem store_positions_in_range_witness:
  "positions_ok (applyDeviceUpdate [[''id'' \<mapsto> JNum 1, ''position_x'' \<mapsto> JNum 10, ''position_y'' \<mapsto> JNum 10]]
                   [''id'' \<mapsto> JNum 1, ''position_x'' \<mapsto> JNum 100]) \<and>
   device_positions (devices (fst (toggle_begin [''id'' \<mapsto> JNum 1, ''device_type'' \<mapsto> JStr ''light'']
      (initial_page\<lparr>devices := [[''id'' \<mapsto> JNum 1, ''position_x'' \<mapsto> JNum 10, ''position_y'' \<mapsto> JNum 10]]\<rparr>))))
     = [(Some (JNum 10), Some (JNum 10))] \<and>
   positions_ok (devices (handleDevicePositionPreview (Some (JNum 1))
      (fst (getPercentFromPointer (\<lambda>x. x)
              (Some \<lparr>rect_left = 20, rect_top = 10, rect_width = 200, rect_height = 100\<rparr>)
              \<lparr>clientX = 500, clientY = - 30\<rparr>))
      (snd (getPercentFromPointer (\<lambda>x. x)
              (Some \<lparr>rect_left = 20, rect_top = 10, rect_width = 200, rect_height = 100\<rparr>)
              \<lparr>clientX = 500, clientY = - 30\<rparr>))
      (initial_page\<lparr>devices := [[''id'' \<mapsto> JNum 1, ''position_x'' \<mapsto> JNum 10, ''position_y'' \<mapsto> JNum 10]]\<rparr>))) \<and>
   onmessage_try
     (\<lambda>raw. Inr (ParsedObject \<lparr>msg_type = Some (JStr ''devices_snapshot''), msg_device = None,
                                msg_devices = Some [[''id'' \<mapsto> JNum 2, ''position_x'' \<mapsto> JNum 250]]\<rparr>))
     ''snapshot'' [[''id'' \<mapsto> JNum 1, ''position_x'' \<mapsto> JNum 10, ''position_y'' \<mapsto> JNum 10]] =
     Inr [[''id'' \<mapsto> JNum 2, ''position_x'' \<mapsto> JNum 250]]"
  using store_positions_in_range
    [where devs = "[[''id'' \<mapsto> JNum 1, ''position_x'' \<mapsto> JNum 10, ''position_y'' \<mapsto> JNum 10]]"
       and u = "[''id'' \<mapsto> JNum 1, ''position_x'' \<mapsto> JNum 100]"
       and s = "initial_page\<lparr>devices := [[''id'' \<mapsto> JNum 1, ''position_x'' \<mapsto> JNum 10, ''position_y'' \<mapsto> JNum 10]]\<rparr>"
       and device = "[''id'' \<mapsto> JNum 1, ''device_type'' \<mapsto> JStr ''light'']"
       and err = "NetworkError ''Unable to reach the server.'' []
                    \<lparr>message = ''timeout'', err_response = None, err_config = None\<rparr>"
       and c = "initial_canvas (Some \<lparr>rect_left = 20, rect_top = 10, rect_width = 200, rect_height = 100\<rparr>)"
       and r = "\<lparr>rect_left = 20, rect_top = 10, rect_width = 200, rect_height = 100\<rparr>"
       and fl = "\<lambda>x. x"
       and i = "Some (JNum 1)" and e = "\<lparr>clientX = 500, clientY = - 30\<rparr>"
       and n = 5 and rooms_data = None
       and ds = "[[''id'' \<mapsto> JNum 1]]"
       and JSON_parse =
         "\<lambda>raw. Inr (ParsedObject \<lparr>msg_type = Some (JStr ''devices_snapshot''), msg_device = None,
                                msg_devices = Some [[''id'' \<mapsto> JNum 2, ''position_x'' \<mapsto> JNum 250]]\<rparr>)"
       and raw = "''snapshot''"]
  by (simp add: positions_ok_def position_ok_def initial_canvas_def device_positions_def)

section \<open>Click or drag\<close>









section \<open>Toggling a device\<close>

text \<open>
  \<open>setError("")\<close> comes before the test for a digital device: toggling an analog sensor
  while an error is shown changes the state of the page.
\<close>

theorem toggle_non_digital_counterexample:
  "toggle_begin [''id'' \<mapsto> JNum 3, ''device_type'' \<mapsto> JStr ''sensor'', ''signal_type'' \<mapsto> JStr ''analog'']
      (initial_page\<lparr>error := JStr ''Room not found.''\<rparr>)
   \<noteq> (initial_page\<lparr>error := JStr ''Room not found.''\<rparr>, [])"
  by (simp add: toggle_begin_def isDigital_def initial_page_def)

text \<open>
  Claim C10, as the code has it. Toggling a device that is not digital (signal type other
  than \<open>digital\<close>, device type neither \<open>switch\<close> nor \<open>light\<close>) does one thing: it
  clears the error that is shown. The store and the rest of the state are as before, no
  request is sent and no error is surfaced.
\<close>

theorem toggle_non_digital:
  "\<not> isDigital device \<Longrightarrow> toggle_begin device s = (s\<lparr>error := JStr []\<rparr>, [])"
  by (simp add: toggle_begin_def)

theorem toggle_non_digital_witness:
  "toggle_begin [''id'' \<mapsto> JNum 3, ''device_type'' \<mapsto> JStr ''sensor'', ''signal_type'' \<mapsto> JStr ''analog'']
      (initial_page\<lparr>error := JStr ''Room not found.'',
                     devices := [[''id'' \<mapsto> JNum 3, ''device_type'' \<mapsto> JStr ''sensor'',
                                  ''signal_type'' \<mapsto> JStr ''analog'']]\<rparr>)
   = (initial_page\<lparr>error := JStr [],
                     devices := [[''id'' \<mapsto> JNum 3, ''device_type'' \<mapsto> JStr ''sensor'',
                                  ''signal_type'' \<mapsto> JStr ''analog'']]\<rparr>, [])"
  using toggle_non_digital
    [of "[''id'' \<mapsto> JNum 3, ''device_type'' \<mapsto> JStr ''sensor'', ''signal_type'' \<mapsto> JStr ''analog'']"
        "initial_page\<lparr>error := JStr ''Room not found.'',
                     devices := [[''id'' \<mapsto> JNum 3, ''device_type'' \<mapsto> JStr ''sensor'',
                                  ''signal_type'' \<mapsto> JStr ''analog'']]\<rparr>"]
  by (simp add: isDigital_def)

text \<open>
  The message shown after a rejected command: the \<open>detail\<close> of the response body when it is
  there and truthy, else the fallback. Without anything happening between the request and
  its rejection, every record with the id of the toggled device ends with \<open>is_on\<close> equal
  to \<open>Boolean(device.is_on)\<close>, the value captured before the flip.
\<close>

lemma error_detail_server:
  "m ''detail'' = Some v \<Longrightarrow> truthy (Some v) \<Longrightarrow>
   error_detail (ApiError st (BodyObject m) u e) fallback = v"
  by (simp add: error_detail_def)

lemma error_detail_fallback:
  "\<not> truthy (body_detail (rej_data err)) \<Longrightarrow> error_detail err fallback = JStr fallback"
  by (cases "body_detail (rej_data err)") (simp_all add: error_detail_def)

lemma toggle_rollback_without_interleaving:
  assumes "isDigital device"
  shows "map (\<lambda>d. d ''is_on'') (devices (toggle_rejected_run JSON_parse device [] err s)) =
           map (\<lambda>d. if d ''id'' = device ''id'' then Some (JBool (truthy (device ''is_on'')))
                     else d ''is_on'') (devices s)"
    and "error (toggle_rejected_run JSON_parse device [] err s) =
           error_detail err ''Could not toggle device.''"
  using assms
  by (simp_all add: toggle_rejected_run_def toggle_begin_def toggle_rejected_def Let_def)

text \<open>
  Claim C1 asks that a rejected toggle leaves \<open>is_on\<close> at its value from before the
  toggle under every interleaving, also when a message of the live channel changed it
  while the command was in flight. The \<open>catch\<close> block, commented as reverting the
  optimistic state, negates the value it finds in the store instead of restoring the
  captured one. A light that is off is toggled; the store shows it on; an update message
  reports it off; the command is rejected; the revert turns it on. The store ends with
  \<open>is_on\<close> true although it was false before the toggle.
\<close>

theorem toggle_rollback_interleaving:
  "map (\<lambda>d. d ''is_on'')
     (devices (initial_page\<lparr>devices :=
         [[''id'' \<mapsto> JNum 1, ''device_type'' \<mapsto> JStr ''light'', ''is_on'' \<mapsto> JBool False]]\<rparr>))
     = [Some (JBool False)] \<and>
   map (\<lambda>d. d ''is_on'')
     (devices (toggle_rejected_run
        (\<lambda>raw. Inr (ParsedObject
           \<lparr>msg_type = Some (JStr ''device_update''),
            msg_device = Some [''id'' \<mapsto> JNum 1, ''is_on'' \<mapsto> JBool False],
            msg_devices = None\<rparr>))
        [''id'' \<mapsto> JNum 1, ''device_type'' \<mapsto> JStr ''light'', ''is_on'' \<mapsto> JBool False]
        [''update of device 1'']
        (NetworkError ''Unable to reach the server.'' ''http://localhost:8002/api/devices/1/command/''
           \<lparr>message = ''Network Error'', err_response = None, err_config = None\<rparr>)
        (initial_page\<lparr>devices :=
           [[''id'' \<mapsto> JNum 1, ''device_type'' \<mapsto> JStr ''light'', ''is_on'' \<mapsto> JBool False]]\<rparr>)))
     = [Some (JBool True)]"
  by (simp add: toggle_rejected_run_def toggle_begin_def toggle_rejected_def isDigital_def
        onmessage_def onmessage_try_def applyDeviceUpdate_def initial_page_def Let_def)

end
